theory Spec2Isabelle
  imports Main "HOL-Library.Word"
begin

section \<open>The capture object of audio_capture.cc\<close>

text \<open>
  A shallow embedding of the class \<open>AudioCapture\<close> of \<open>src/audio_capture.cc\<close>:
  its three operations \<open>StartCapture\<close>, \<open>StopCapture\<close> and the render callback
  \<open>HandleAudioInput\<close>. The object's fields are a record; the operations pass the
  state explicitly; a JavaScript exception thrown by an operation is the \<open>Inl\<close> of
  its result. The calls into CoreAudio are answered by a parameter (the status codes
  and out-values the platform gives back) and are written to a log in the order the
  code makes them.
\<close>

subsection \<open>Machine types\<close>

type_synonym OSStatus = "32 word"       \<comment> \<open>SInt32\<close>
type_synonym UInt32 = "32 word"
type_synonym size_t = "64 word"
type_synonym byte = "8 word"
type_synonym AudioDeviceID = "32 word"  \<comment> \<open>UInt32\<close>
type_synonym AudioUnit = nat            \<comment> \<open>a pointer; 0 is the null pointer\<close>

definition noErr :: OSStatus where
  "noErr = 0"

definition sizeof_Float32 :: nat where
  "sizeof_Float32 = 4"

subsection \<open>Values of the scripting host\<close>

datatype js_value = JsUndefined | JsBoolean bool | JsNumber int | JsString string | JsFunction nat

fun IsFunction :: "js_value \<Rightarrow> bool" where
  "IsFunction (JsFunction f) = True"
| "IsFunction v = False"

text \<open>\<open>Napi::Error::New(env, msg).ThrowAsJavaScriptException()\<close>: the message is the error.\<close>

datatype js_error = JsError string

subsection \<open>The stream format and the buffer list\<close>

record AudioStreamBasicDescription =
  mSampleRate :: nat
  mFormatID :: UInt32
  mFormatFlags :: UInt32
  mBytesPerPacket :: UInt32
  mFramesPerPacket :: UInt32
  mBytesPerFrame :: UInt32
  mChannelsPerFrame :: UInt32
  mBitsPerChannel :: UInt32

text \<open>
  Constants of the CoreAudio headers: \<open>kAudioFormatLinearPCM\<close> is the four-character
  code \<open>lpcm\<close>, \<open>kAudioFormatFlagIsFloat\<close> is bit 0 and \<open>kAudioFormatFlagIsPacked\<close>
  is bit 3.
\<close>

definition kAudioFormatLinearPCM :: UInt32 where
  "kAudioFormatLinearPCM = 0x6C70636D"

definition kAudioFormatFlagIsFloat :: UInt32 where
  "kAudioFormatFlagIsFloat = 1"

definition kAudioFormatFlagIsPacked :: UInt32 where
  "kAudioFormatFlagIsPacked = 8"

text \<open>The local \<open>streamFormat\<close> of \<open>StartCapture\<close> (lines 202 to 210).\<close>

definition streamFormat :: AudioStreamBasicDescription where
  "streamFormat =
     (let channels = (2 :: UInt32);
          bytesPerPacket = channels * of_nat sizeof_Float32
      in \<lparr> mSampleRate = 44100,
           mFormatID = kAudioFormatLinearPCM,
           mFormatFlags = or kAudioFormatFlagIsFloat kAudioFormatFlagIsPacked,
           mBytesPerPacket = bytesPerPacket,
           mFramesPerPacket = 1,
           mBytesPerFrame = bytesPerPacket,
           mChannelsPerFrame = channels,
           mBitsPerChannel = 32 \<rparr>)"

text \<open>
  An \<open>AudioBuffer\<close>: \<open>mData\<close> is the region the pointer addresses, as its bytes;
  \<open>mDataByteSize\<close> is the size the code declares for it.
\<close>

record AudioBuffer =
  mNumberChannels :: UInt32
  mDataByteSize :: UInt32
  mData :: "byte list"

record AudioBufferList =
  mNumberBuffers :: UInt32
  mBuffers :: "AudioBuffer list"

text \<open>
  \<open>std::make_unique<Float32[]>(n)\<close>: \<open>n\<close> value-initialised samples of four bytes
  each. The argument is the 32-bit product \<open>inNumberFrames * 2\<close>.
\<close>

definition tempBuffer :: "UInt32 \<Rightarrow> byte list" where
  "tempBuffer inNumberFrames = replicate (unat (inNumberFrames * 2) * sizeof_Float32) 0"

text \<open>The buffer list \<open>HandleAudioInput\<close> builds (lines 45 to 52).\<close>

definition bufferList :: "UInt32 \<Rightarrow> AudioBufferList" where
  "bufferList inNumberFrames =
     \<lparr> mNumberBuffers = 1,
       mBuffers = [\<lparr> mNumberChannels = 2,
                     mDataByteSize = inNumberFrames * 4,
                     mData = tempBuffer inNumberFrames \<rparr>] \<rparr>"

subsection \<open>The handoff channel\<close>

text \<open>
  \<open>struct AudioData\<close>: an owned byte array and its size.
\<close>

record AudioData =
  data :: "byte list"
  size_bytes :: size_t

text \<open>
  Modelled from the spec: the handoff channel. In the code it is
  \<open>Napi::ThreadSafeFunction\<close> of node-addon-api, which is not among the sources.
  Section 4.4 of the specification gives its contract: \<open>enqueue(buffer) -> bool\<close>,
  non-blocking, returns whether a delivery was scheduled; \<open>close()\<close> makes subsequent
  \<open>enqueue\<close> calls no-ops; deliveries are in the order of the enqueues. A channel is
  the consumer it is bound to, whether it has been closed, and the buffers scheduled for
  delivery, oldest first.
\<close>

record channel =
  consumer :: js_value
  closed :: bool
  pending :: "AudioData list"

text \<open>
  Modelled from the spec: \<open>enqueue\<close> of section 4.4. A closed channel rejects the
  buffer and stays as it is. The code creates the channel with queue size 0 (no bound),
  so an open channel schedules every buffer.
\<close>

definition enqueue :: "AudioData \<Rightarrow> channel \<Rightarrow> bool \<times> channel" where
  "enqueue d c = (if closed c then (False, c) else (True, c\<lparr>pending := pending c @ [d]\<rparr>))"

text \<open>Modelled from the spec: \<open>close\<close> of section 4.4.\<close>

definition close :: "channel \<Rightarrow> channel" where
  "close c = c\<lparr>closed := True\<rparr>"

text \<open>
  Modelled from the spec: delivery of section 4.4. The buffers scheduled on a channel
  are handed to its consumer in the order of the enqueues, one invocation per buffer;
  the result lists the invocations (the function called and its argument) and the
  channel with nothing left to deliver.
\<close>

definition deliver :: "channel \<Rightarrow> (js_value \<times> AudioData) list \<times> channel" where
  "deliver c = (map (\<lambda>d. (consumer c, d)) (pending c), c\<lparr>pending := []\<rparr>)"

text \<open>
  Modelled from the spec: opening a channel and the non-blocking enqueue, as the two
  methods of \<open>Napi::ThreadSafeFunction\<close> the code calls for them, on a store of
  channels. A \<open>ThreadSafeFunction\<close> value is a handle into the store (or empty).
  \<open>New\<close> opens a fresh channel bound to the consumer (section 4.5) and returns its
  handle; \<open>NonBlockingCall\<close> is \<open>enqueue\<close> on the handle's channel (section 4.3,
  step 4). A handle outside the store does nothing.
\<close>

definition tsfn_New :: "js_value \<Rightarrow> channel list \<Rightarrow> nat \<times> channel list" where
  "tsfn_New f chs = (length chs, chs @ [\<lparr>consumer = f, closed = False, pending = []\<rparr>])"

definition tsfn_NonBlockingCall :: "nat \<Rightarrow> AudioData \<Rightarrow> channel list \<Rightarrow> bool \<times> channel list" where
  "tsfn_NonBlockingCall h d chs =
     (if h < length chs
      then (let (ok, c) = enqueue d (chs ! h) in (ok, chs[h := c]))
      else (False, chs))"

text \<open>
  \<open>ThreadSafeFunction::Release\<close>. Neither the sources nor the specification say what
  a release does to the channel (section 4.4 has \<open>enqueue\<close> and \<open>close\<close> only), so
  its effect on the handle's channel is a parameter, \<open>rel\<close>, of everything that
  releases.
\<close>

type_synonym release = "channel \<Rightarrow> channel"

definition tsfn_Release :: "release \<Rightarrow> nat \<Rightarrow> channel list \<Rightarrow> channel list" where
  "tsfn_Release rel h chs = (if h < length chs then chs[h := rel (chs ! h)] else chs)"

subsection \<open>The platform\<close>

datatype scope = Scope_Global | Scope_Input | Scope_Output

text \<open>The calls into CoreAudio, with the arguments that tell them apart.\<close>

datatype platform_call =
    GetDefaultOutputDevice
  | ComponentInstanceNew
  | EnableIO AudioUnit scope UInt32 UInt32
  | CurrentDevice AudioUnit AudioDeviceID
  | StreamFormat AudioUnit AudioStreamBasicDescription
  | SetInputCallback AudioUnit
  | UnitInitialize AudioUnit
  | OutputUnitStart AudioUnit
  | OutputUnitStop AudioUnit
  | UnitUninitialize AudioUnit
  | InstanceDispose AudioUnit
  | UnitRender AudioUnit UInt32 UInt32 AudioBufferList

text \<open>The seven configuration calls that follow the creation of the audio unit.\<close>

datatype setup_step =
    DisableOutput | EnableInput | BindDevice | SetStreamFormat
  | RegisterCallback | Initialize | Start

text \<open>
  What the platform answers during one \<open>StartCapture\<close>: for a call with an
  out-parameter, the status and the value the field holds afterwards.
\<close>

record platform =
  defaultOutputDevice :: "OSStatus \<times> AudioDeviceID"
  componentInstanceNew :: "OSStatus \<times> AudioUnit"
  stepStatus :: "setup_step \<Rightarrow> OSStatus"

text \<open>
  What \<open>AudioUnitRender\<close> answers: the status and the bytes it wrote at the start of
  the region \<open>mData\<close>. The region keeps its size.
\<close>

type_synonym render = "AudioUnit \<Rightarrow> UInt32 \<Rightarrow> UInt32 \<Rightarrow> AudioBufferList \<Rightarrow> OSStatus \<times> byte list"

definition written :: "byte list \<Rightarrow> byte list \<Rightarrow> byte list" where
  "written out region = take (length region) (out @ drop (length out) region)"

subsection \<open>The object and its operations\<close>

text \<open>
  The fields of the class (\<open>env_\<close> has no part in any operation). \<open>tsfn\<close> is
  \<open>None\<close> for an empty \<open>ThreadSafeFunction\<close>, else the channel's handle.
\<close>

record AudioCapture =
  outputDevice :: AudioDeviceID
  audioUnit :: AudioUnit
  tsfn :: "nat option"
  isCapturing :: bool

text \<open>The object together with what it acts on: the channel store and the call log.\<close>

record world = AudioCapture +
  channels :: "channel list"
  calls :: "platform_call list"

text \<open>
  The constructor sets \<open>isCapturing\<close> and default-constructs \<open>tsfn\<close>; it leaves
  \<open>outputDevice\<close> and \<open>audioUnit\<close> as they are found.
\<close>

definition new_AudioCapture :: "AudioDeviceID \<Rightarrow> AudioUnit \<Rightarrow> world" where
  "new_AudioCapture dev unit =
     \<lparr> outputDevice = dev, audioUnit = unit, tsfn = None, isCapturing = False,
       channels = [], calls = [] \<rparr>"

text \<open>
  \<open>HandleAudioInput\<close> (lines 39 to 83). The action flags and the time stamp are
  passed through to the render call and are left out.
\<close>

definition HandleAudioInput :: "render \<Rightarrow> UInt32 \<Rightarrow> UInt32 \<Rightarrow> world \<Rightarrow> OSStatus \<times> world" where
  "HandleAudioInput rnd inBusNumber inNumberFrames w =
     (let bl = bufferList inNumberFrames;
          (status, out) = rnd (audioUnit w) inBusNumber inNumberFrames bl;
          temp = written out (tempBuffer inNumberFrames);
          w1 = w\<lparr>calls := calls w @ [UnitRender (audioUnit w) inBusNumber inNumberFrames bl]\<rparr>
      in if status = noErr \<and> tsfn w \<noteq> None
         then
           (let bufferSize = (ucast (inNumberFrames * 2) :: size_t) * of_nat sizeof_Float32;
                audioData = \<lparr> data = take (unat bufferSize) temp, size_bytes = bufferSize \<rparr>;
                (ok, chs) = tsfn_NonBlockingCall (the (tsfn w)) audioData (channels w1)
            in (status, w1\<lparr>channels := chs\<rparr>))
         else (status, w1))"

text \<open>\<open>StartCapture\<close> (lines 109 to 237).\<close>

definition StartCapture :: "platform \<Rightarrow> js_value list \<Rightarrow> world \<Rightarrow> (js_error + js_value) \<times> world" where
  "StartCapture p info w =
     (if isCapturing w then (Inl (JsError ''Already capturing''), w)
      else if length info < 1 \<or> \<not> IsFunction (info ! 0)
      then (Inl (JsError ''Callback function required''), w)
      else
        (let (h, chs) = tsfn_New (info ! 0) (channels w);
             w = w\<lparr>tsfn := Some h, channels := chs\<rparr>;
             (status, dev) = defaultOutputDevice p;
             w = w\<lparr>outputDevice := dev, calls := calls w @ [GetDefaultOutputDevice]\<rparr>
         in if status \<noteq> noErr
            then (Inl (JsError ''Failed to get default output device''), w)
            else
              (let (status, unit) = componentInstanceNew p;
                   w = w\<lparr>audioUnit := unit, calls := calls w @ [ComponentInstanceNew]\<rparr>
               in if status \<noteq> noErr
                  then (Inl (JsError ''Failed to create audio unit''), w)
                  else
                    (let status = stepStatus p DisableOutput;
                         w = w\<lparr>calls := calls w @ [EnableIO (audioUnit w) Scope_Output 0 0]\<rparr>;
                         status = stepStatus p EnableInput;
                         w = w\<lparr>calls := calls w @ [EnableIO (audioUnit w) Scope_Input 1 1]\<rparr>;
                         status = stepStatus p BindDevice;
                         w = w\<lparr>calls := calls w @ [CurrentDevice (audioUnit w) (outputDevice w)]\<rparr>;
                         status = stepStatus p SetStreamFormat;
                         w = w\<lparr>calls := calls w @ [StreamFormat (audioUnit w) streamFormat]\<rparr>;
                         status = stepStatus p RegisterCallback;
                         w = w\<lparr>calls := calls w @ [SetInputCallback (audioUnit w)]\<rparr>;
                         status = stepStatus p Initialize;
                         w = w\<lparr>calls := calls w @ [UnitInitialize (audioUnit w)]\<rparr>;
                         status = stepStatus p Start;
                         w = w\<lparr>calls := calls w @ [OutputUnitStart (audioUnit w)]\<rparr>
                     in (Inr JsUndefined, w\<lparr>isCapturing := True\<rparr>)))))"

text \<open>
  \<open>StopCapture\<close> (lines 239 to 262). The statuses of the teardown calls are not read;
  \<open>rel\<close> is what the library's release does to a channel.
\<close>

definition StopCapture :: "release \<Rightarrow> world \<Rightarrow> (js_error + js_value) \<times> world" where
  "StopCapture rel w =
     (if \<not> isCapturing w then (Inr JsUndefined, w)
      else
        (let w = (if audioUnit w \<noteq> 0
                  then w\<lparr>calls := calls w @ [OutputUnitStop (audioUnit w),
                                               UnitUninitialize (audioUnit w),
                                               InstanceDispose (audioUnit w)]\<rparr>
                  else w);
             w = (case tsfn w of
                    Some h \<Rightarrow> w\<lparr>channels := tsfn_Release rel h (channels w)\<rparr>
                  | None \<Rightarrow> w)
         in (Inr JsUndefined, w\<lparr>isCapturing := False\<rparr>)))"

subsection \<open>Runs of the object\<close>

text \<open>
  What can happen to an object: the host calls \<open>startCapture\<close> or \<open>stopCapture\<close>,
  or the audio subsystem fires the render callback. A run applies a list of these,
  first to last.
\<close>

datatype operation = OpStart platform "js_value list" | OpStop | OpCallback render UInt32 UInt32

fun step :: "release \<Rightarrow> operation \<Rightarrow> world \<Rightarrow> world" where
  "step rel (OpStart p info) w = snd (StartCapture p info w)"
| "step rel OpStop w = snd (StopCapture rel w)"
| "step rel (OpCallback rnd bus n) w = snd (HandleAudioInput rnd bus n w)"

fun run :: "release \<Rightarrow> operation list \<Rightarrow> world \<Rightarrow> world" where
  "run rel [] w = w"
| "run rel (x # xs) w = run rel xs (step rel x w)"

subsection \<open>Concrete platforms and states\<close>

text \<open>A platform on which every call succeeds: device 73, audio unit at address 1.\<close>

definition platform_ok :: platform where
  "platform_ok =
     \<lparr> defaultOutputDevice = (0, 73), componentInstanceNew = (0, 1), stepStatus = (\<lambda>s. 0) \<rparr>"

text \<open>No default output device: the query returns \<open>kAudioHardwareBadObjectError\<close>.\<close>

definition platform_no_device :: platform where
  "platform_no_device =
     \<lparr> defaultOutputDevice = (560947818, 0), componentInstanceNew = (0, 1),
       stepStatus = (\<lambda>s. 0) \<rparr>"

text \<open>\<open>AudioOutputUnitStart\<close> returns \<open>kAudioUnitErr_Uninitialized\<close>; all else succeeds.\<close>

definition platform_start_fails :: platform where
  "platform_start_fails =
     \<lparr> defaultOutputDevice = (0, 73), componentInstanceNew = (0, 1),
       stepStatus = (\<lambda>s. if s = Start then - 10867 else 0) \<rparr>"

definition idle_world :: world where
  "idle_world = new_AudioCapture 0 0"

definition capturing_world :: world where
  "capturing_world = snd (StartCapture platform_ok [JsFunction 0] idle_world)"

text \<open>
  A render that succeeds and stays within the size the buffer list declares: it writes
  the first \<open>mDataByteSize\<close> bytes of a pattern of sixteen. And a render that fails.
\<close>

definition render_ok :: render where
  "render_ok =
     (\<lambda>unit bus n bl.
        (0, take (unat (mDataByteSize (mBuffers bl ! 0)))
              [1, 2, 3, 4, 5, 6, 7, 8, 9, 10, 11, 12, 13, 14, 15, 16]))"

definition render_fails :: render where
  "render_fails = (\<lambda>unit bus n bl. (- 10863, []))"

section \<open>Properties\<close>

subsection \<open>Auxiliary facts\<close>

lemma capturing_world_eq:
  "capturing_world =
     \<lparr> outputDevice = 73, audioUnit = 1, tsfn = Some 0, isCapturing = True,
       channels = [\<lparr>consumer = JsFunction 0, closed = False, pending = []\<rparr>],
       calls = [GetDefaultOutputDevice, ComponentInstanceNew, EnableIO 1 Scope_Output 0 0,
         EnableIO 1 Scope_Input 1 1, CurrentDevice 1 73, StreamFormat 1 streamFormat,
         SetInputCallback 1, UnitInitialize 1, OutputUnitStart 1] \<rparr>"
  by (simp add: capturing_world_def idle_world_def platform_ok_def new_AudioCapture_def
      StartCapture_def tsfn_New_def noErr_def Let_def)

lemma replicate_four: "replicate 4 x = [x, x, x, x]"
  by (simp add: eval_nat_numeral)






subsection \<open>Starting\<close>

text \<open>
  Claim C1: every \<open>startCapture\<close> that fails leaves the session Idle with every
  partially acquired resource released. The code creates the channel before it asks
  for the device and returns from both failure branches without releasing it: from an
  Idle session with a callback, when the device query or the creation of the audio unit
  fails, an error is thrown and the session stays Idle, but the object then holds the
  channel it has just created, still open, and a later \<open>stopCapture\<close> does nothing
  about it.
\<close>

theorem StartCapture_failure_keeps_channel_open:
  assumes "\<not> isCapturing w" and "info \<noteq> []" and "IsFunction (info ! 0)"
    and "fst (defaultOutputDevice p) \<noteq> noErr \<or> fst (componentInstanceNew p) \<noteq> noErr"
  shows "(\<exists>msg. fst (StartCapture p info w) = Inl (JsError msg)) \<and>
         \<not> isCapturing (snd (StartCapture p info w)) \<and>
         tsfn (snd (StartCapture p info w)) = Some (length (channels w)) \<and>
         channels (snd (StartCapture p info w)) =
           channels w @ [\<lparr>consumer = info ! 0, closed = False, pending = []\<rparr>] \<and>
         StopCapture rel (snd (StartCapture p info w)) =
           (Inr JsUndefined, snd (StartCapture p info w))"
  using assms
  by (auto simp add: StartCapture_def StopCapture_def tsfn_New_def Let_def case_prod_beta)

theorem StartCapture_failure_keeps_channel_open_witness:
  "\<not> isCapturing idle_world \<and> [JsFunction 0] \<noteq> [] \<and> IsFunction ([JsFunction 0] ! 0) \<and>
   fst (defaultOutputDevice platform_no_device) \<noteq> noErr \<and>
   fst (StartCapture platform_no_device [JsFunction 0] idle_world) =
     Inl (JsError ''Failed to get default output device'') \<and>
   \<not> isCapturing (snd (StartCapture platform_no_device [JsFunction 0] idle_world)) \<and>
   tsfn (snd (StartCapture platform_no_device [JsFunction 0] idle_world)) = Some 0 \<and>
   channels (snd (StartCapture platform_no_device [JsFunction 0] idle_world)) =
     [\<lparr>consumer = JsFunction 0, closed = False, pending = []\<rparr>]"
proof -
  have a: "\<not> isCapturing idle_world"
    by (simp add: idle_world_def new_AudioCapture_def)
  have b: "[JsFunction 0] \<noteq> []" by simp
  have c: "IsFunction ([JsFunction 0] ! 0)" by simp
  have d: "fst (defaultOutputDevice platform_no_device) \<noteq> noErr"
    by (simp add: platform_no_device_def noErr_def)
  have e: "fst (StartCapture platform_no_device [JsFunction 0] idle_world) =
     Inl (JsError ''Failed to get default output device'')"
    by (simp add: StartCapture_def platform_no_device_def idle_world_def new_AudioCapture_def
        tsfn_New_def noErr_def Let_def)
  have f: "channels idle_world = []"
    by (simp add: idle_world_def new_AudioCapture_def)
  from StartCapture_failure_keeps_channel_open [OF a b c disjI1 [OF d]] a b c d e f
  show ?thesis by simp
qed

text \<open>
  Claim C2: a non-success status of any of the seven configuration steps makes
  \<open>startCapture\<close> fail with a setup error. The code stores each status in \<open>status\<close>
  and never reads it: once the device and the audio unit are there, the call returns
  normally and the session is Capturing, whatever status any of the steps gave.
\<close>

theorem StartCapture_ignores_step_status:
  assumes "\<not> isCapturing w" and "info \<noteq> []" and "IsFunction (info ! 0)"
    and "fst (defaultOutputDevice p) = noErr" and "fst (componentInstanceNew p) = noErr"
    and "stepStatus p s \<noteq> noErr"
  shows "fst (StartCapture p info w) = Inr JsUndefined \<and>
         isCapturing (snd (StartCapture p info w))"
  using assms by (simp add: StartCapture_def tsfn_New_def Let_def case_prod_beta)

theorem StartCapture_ignores_step_status_witness:
  "\<not> isCapturing idle_world \<and> [JsFunction 0] \<noteq> [] \<and> IsFunction ([JsFunction 0] ! 0) \<and>
   fst (defaultOutputDevice platform_start_fails) = noErr \<and>
   fst (componentInstanceNew platform_start_fails) = noErr \<and>
   stepStatus platform_start_fails Start \<noteq> noErr \<and>
   fst (StartCapture platform_start_fails [JsFunction 0] idle_world) = Inr JsUndefined \<and>
   isCapturing (snd (StartCapture platform_start_fails [JsFunction 0] idle_world))"
proof -
  have a: "\<not> isCapturing idle_world"
    by (simp add: idle_world_def new_AudioCapture_def)
  have b: "[JsFunction 0] \<noteq> []" by simp
  have c: "IsFunction ([JsFunction 0] ! 0)" by simp
  have d: "fst (defaultOutputDevice platform_start_fails) = noErr"
    by (simp add: platform_start_fails_def noErr_def)
  have e: "fst (componentInstanceNew platform_start_fails) = noErr"
    by (simp add: platform_start_fails_def noErr_def)
  have f: "stepStatus platform_start_fails Start \<noteq> noErr"
    by (simp add: platform_start_fails_def noErr_def)
  from StartCapture_ignores_step_status [OF a b c d e f] a b c d e f
  show ?thesis by simp
qed

text \<open>
  Claim C5: \<open>startCapture\<close> on a Capturing session throws \<open>Already capturing\<close> and
  changes nothing: the object's fields, the channel store and the call log are as before.
\<close>

theorem StartCapture_already_capturing:
  "isCapturing w \<Longrightarrow> StartCapture p info w = (Inl (JsError ''Already capturing''), w)"
  by (simp add: StartCapture_def)

theorem StartCapture_already_capturing_witness:
  "isCapturing capturing_world \<and>
   StartCapture platform_ok [JsFunction 1] capturing_world =
     (Inl (JsError ''Already capturing''), capturing_world)"
proof -
  have c: "isCapturing capturing_world" by (simp add: capturing_world_eq)
  from StartCapture_already_capturing [OF c] c show ?thesis by simp
qed

text \<open>
  Claim C10: the state is checked before the argument. On a Capturing session the error
  is \<open>Already capturing\<close> for every argument list, also an empty one or one whose first
  element is not a function; \<open>Callback function required\<close> is thrown only from Idle,
  and from Idle it is thrown exactly for such argument lists.
\<close>

theorem StartCapture_checks_state_first:
  "(isCapturing w \<longrightarrow> fst (StartCapture p info w) = Inl (JsError ''Already capturing'')) \<and>
   (fst (StartCapture p info w) = Inl (JsError ''Callback function required'') \<longrightarrow>
      \<not> isCapturing w \<and> (length info < 1 \<or> \<not> IsFunction (info ! 0))) \<and>
   (\<not> isCapturing w \<and> (length info < 1 \<or> \<not> IsFunction (info ! 0)) \<longrightarrow>
      fst (StartCapture p info w) = Inl (JsError ''Callback function required''))"
  by (auto simp add: StartCapture_def Let_def case_prod_beta split: if_splits)

theorem StartCapture_checks_state_first_witness:
  "isCapturing capturing_world \<and>
   fst (StartCapture platform_ok [] capturing_world) = Inl (JsError ''Already capturing'') \<and>
   fst (StartCapture platform_ok [JsNumber 5] capturing_world) =
     Inl (JsError ''Already capturing'') \<and>
   \<not> isCapturing idle_world \<and>
   fst (StartCapture platform_ok [] idle_world) = Inl (JsError ''Callback function required'') \<and>
   fst (StartCapture platform_ok [JsNumber 5] idle_world) =
     Inl (JsError ''Callback function required'')"
proof -
  have a: "isCapturing capturing_world" by (simp add: capturing_world_eq)
  have b: "\<not> isCapturing idle_world"
    by (simp add: idle_world_def new_AudioCapture_def)
  from StartCapture_checks_state_first [of capturing_world platform_ok "[]"]
    StartCapture_checks_state_first [of capturing_world platform_ok "[JsNumber 5]"]
    StartCapture_checks_state_first [of idle_world platform_ok "[]"]
    StartCapture_checks_state_first [of idle_world platform_ok "[JsNumber 5]"]
    a b
  show ?thesis by simp
qed

subsection \<open>Stopping\<close>

text \<open>
  Claim C7: \<open>stopCapture\<close> on an Idle session returns normally and changes nothing,
  and in every state \<open>stopCapture\<close> returns normally (it never throws), whatever the
  library's release does.
\<close>

theorem StopCapture_idle_noop:
  "(\<not> isCapturing w \<longrightarrow> StopCapture rel w = (Inr JsUndefined, w)) \<and>
   fst (StopCapture rel w) = Inr JsUndefined"
  by (simp add: StopCapture_def Let_def)

theorem StopCapture_idle_noop_witness:
  "\<not> isCapturing idle_world \<and> StopCapture close idle_world = (Inr JsUndefined, idle_world) \<and>
   fst (StopCapture close capturing_world) = Inr JsUndefined"
proof -
  have a: "\<not> isCapturing idle_world"
    by (simp add: idle_world_def new_AudioCapture_def)
  from StopCapture_idle_noop [of idle_world close] StopCapture_idle_noop [of capturing_world close] a
  show ?thesis by simp
qed

subsection \<open>The render callback\<close>

text \<open>
  Claim C3: the scratch buffer handed to the render call has the layout of the
  negotiated format, 8 bytes per frame: its declared size is \<open>frameCount * 8\<close> and its
  region holds \<open>frameCount * 2\<close> samples. The region is as claimed, but the code declares
  \<open>inNumberFrames * 4\<close> bytes: for 512 frames the negotiated format has 4096 bytes, the
  region has 4096 bytes (1024 samples of four bytes), and \<open>mDataByteSize\<close> is 2048.
\<close>

theorem bufferList_declared_size:
  "mDataByteSize (mBuffers (bufferList n) ! 0) = n * 4 \<and>
   length (mData (mBuffers (bufferList n) ! 0)) = unat (n * 2) * 4 \<and>
   mBytesPerFrame streamFormat = 8 \<and>
   mDataByteSize (mBuffers (bufferList 512) ! 0) = 2048 \<and>
   512 * mBytesPerFrame streamFormat = 4096 \<and>
   length (mData (mBuffers (bufferList 512) ! 0)) = 4096 \<and>
   mDataByteSize (mBuffers (bufferList 512) ! 0) \<noteq> 512 * mBytesPerFrame streamFormat"
  by (simp add: bufferList_def tempBuffer_def streamFormat_def sizeof_Float32_def Let_def)




text \<open>
  Claim C8: the callback returns the status of the render call unchanged, whether or not
  a buffer was enqueued, and it makes the render call once: the call log grows by exactly
  that one call.
\<close>

theorem HandleAudioInput_status:
  "fst (HandleAudioInput rnd bus n w) = fst (rnd (audioUnit w) bus n (bufferList n)) \<and>
   calls (snd (HandleAudioInput rnd bus n w)) =
     calls w @ [UnitRender (audioUnit w) bus n (bufferList n)]"
  by (simp add: HandleAudioInput_def Let_def case_prod_beta)

text \<open>
  Claim C9: when the render call returns a non-success status, nothing but the call log
  changes: no buffer is created or enqueued and nothing is delivered to the consumer, so
  the channel store is as before.
\<close>

theorem HandleAudioInput_render_failure:
  assumes "fst (rnd (audioUnit w) bus n (bufferList n)) \<noteq> noErr"
  shows "snd (HandleAudioInput rnd bus n w) =
           w\<lparr>calls := calls w @ [UnitRender (audioUnit w) bus n (bufferList n)]\<rparr> \<and>
         channels (snd (HandleAudioInput rnd bus n w)) = channels w"
  using assms by (simp add: HandleAudioInput_def Let_def case_prod_beta)

theorem HandleAudioInput_render_failure_witness:
  "fst (render_fails (audioUnit capturing_world) 1 512 (bufferList 512)) \<noteq> noErr \<and>
   channels (snd (HandleAudioInput render_fails 1 512 capturing_world)) =
     [\<lparr>consumer = JsFunction 0, closed = False, pending = []\<rparr>]"
proof -
  have a: "fst (render_fails (audioUnit capturing_world) 1 512 (bufferList 512)) \<noteq> noErr"
    by (simp add: render_fails_def noErr_def)
  have b: "channels capturing_world = [\<lparr>consumer = JsFunction 0, closed = False, pending = []\<rparr>]"
    by (simp add: capturing_world_eq)
  from HandleAudioInput_render_failure [of render_fails capturing_world 1 512, OF a] a b
  show ?thesis by simp
qed

text \<open>
  Claim C6: after \<open>stopCapture\<close> returns no render callback can enqueue a buffer, and
  the consumer is not invoked any more. The code does not ensure it. After a start that
  failed at the device query the object holds the open channel of that start; the stop
  that follows finds the session Idle, returns and releases nothing; a callback whose
  render succeeds then passes the test of the handle, the channel schedules its buffer,
  and the delivery invokes the consumer. This holds whatever the library's release does,
  and also when a capture was started and stopped before.
\<close>

theorem enqueue_after_stop:
  "StopCapture rel (snd (StartCapture platform_no_device [JsFunction 0] idle_world)) =
     (Inr JsUndefined, snd (StartCapture platform_no_device [JsFunction 0] idle_world)) \<and>
   channels (run rel [OpStart platform_no_device [JsFunction 0], OpStop] idle_world) =
     [\<lparr>consumer = JsFunction 0, closed = False, pending = []\<rparr>] \<and>
   channels (run rel [OpStart platform_no_device [JsFunction 0], OpStop,
       OpCallback render_ok 1 1] idle_world) =
     [\<lparr>consumer = JsFunction 0, closed = False,
       pending = [\<lparr>data = [1, 2, 3, 4, 0, 0, 0, 0], size_bytes = 8\<rparr>]\<rparr>] \<and>
   fst (deliver (channels (run rel [OpStart platform_no_device [JsFunction 0], OpStop,
       OpCallback render_ok 1 1] idle_world) ! 0)) =
     [(JsFunction 0, \<lparr>data = [1, 2, 3, 4, 0, 0, 0, 0], size_bytes = 8\<rparr>)] \<and>
   fst (deliver (channels (run rel [OpStart platform_ok [JsFunction 0], OpStop,
       OpStart platform_no_device [JsFunction 1], OpStop,
       OpCallback render_ok 1 1] idle_world) ! 1)) =
     [(JsFunction 1, \<lparr>data = [1, 2, 3, 4, 0, 0, 0, 0], size_bytes = 8\<rparr>)]"
  by (simp add: StartCapture_def StopCapture_def HandleAudioInput_def deliver_def
      platform_no_device_def platform_ok_def idle_world_def new_AudioCapture_def
      render_ok_def bufferList_def tsfn_New_def tsfn_NonBlockingCall_def tsfn_Release_def
      enqueue_def tempBuffer_def written_def sizeof_Float32_def noErr_def Let_def
      replicate_four)

end
